theory Spec2Isabelle
  imports Complex_Main
begin

section \<open>Numbers and their rendering\<close>

text \<open>
  The plugin computes with JavaScript numbers. They are modelled as exact rationals:
  every number the plugin receives is a JSON number literal, that is a finite decimal,
  and the operations used (\<open>+\<close>, \<open>-\<close>, \<open>*\<close>, \<open>/\<close> by the constant 60 or 100,
  \<open>Math.floor\<close>, \<open>Math.round\<close>) are taken without the rounding of IEEE doubles.
  \<open>null\<close> and \<open>undefined\<close> are \<open>None\<close> of an option type.
\<close>

type_synonym number = rat

text \<open>\<open>Math.floor\<close> and \<open>Math.round\<close>; the latter rounds to the nearest integer and
  a tie towards plus infinity.\<close>

definition math_floor :: "number \<Rightarrow> number" where
  "math_floor x = of_int \<lfloor>x\<rfloor>"

definition math_round :: "number \<Rightarrow> number" where
  "math_round x = (if x - of_int \<lfloor>x\<rfloor> < 1 / 2 then of_int \<lfloor>x\<rfloor> else of_int \<lfloor>x\<rfloor> + 1)"

text \<open>
  Conversion of a number to a string, as string concatenation does it: an optional sign,
  the decimal digits of the integer part and, unless the number is an integer, a point
  and the digits of the fraction. The fraction is cut after 20 digits; a finite decimal
  with fewer digits is written out exactly. This is what JavaScript prints for a finite
  decimal of at most 17 significant digits and of magnitude from \<open>10\<^sup>-\<^sup>6\<close> up to
  \<open>10\<^sup>2\<^sup>1\<close>; its exponent notation outside that range is not modelled.
\<close>

definition digit :: "nat \<Rightarrow> char" where
  "digit d = ''0123456789'' ! (d mod 10)"

fun natToString :: "nat \<Rightarrow> string" where
  "natToString n = (if n < 10 then [digit n] else natToString (n div 10) @ [digit (n mod 10)])"

declare natToString.simps [simp del]

fun fracDigits :: "nat \<Rightarrow> rat \<Rightarrow> string" where
  "fracDigits 0 r = []"
| "fracDigits (Suc k) r =
     (if r = 0 then []
      else digit (nat \<lfloor>r * 10\<rfloor>) # fracDigits k (r * 10 - of_int \<lfloor>r * 10\<rfloor>))"

definition numToString :: "number \<Rightarrow> string" where
  "numToString x =
     (let a = \<bar>x\<bar>; i = \<lfloor>a\<rfloor>; f = a - of_int i
      in (if x < 0 then ''-'' else [])
         @ natToString (nat i)
         @ (if f = 0 then [] else ''.'' @ fracDigits 20 f))"

section \<open>Formatting utility\<close>

text \<open>\<open>minutesToHoursMinutes(minutes)\<close>: the two-element array \<open>[hours, minutes]\<close> as a pair.\<close>

definition minutesToHoursMinutes :: "number \<Rightarrow> number \<times> number" where
  "minutesToHoursMinutes minutes =
     (let hours = math_floor (minutes / 60);
          minutes' = minutes - (hours * 60)
      in (hours, minutes'))"

text \<open>\<open>minutesToLabel(minutes)\<close>; \<open>minutes == null\<close> holds of \<open>null\<close> and \<open>undefined\<close>.\<close>

definition minutesToLabel :: "number option \<Rightarrow> string" where
  "minutesToLabel minutes =
     (case minutes of
        None \<Rightarrow> []
      | Some m \<Rightarrow>
          if m = 0 then []
          else let hm = minutesToHoursMinutes m
               in if fst hm = 0 then numToString (snd hm) @ '' minutes''
                  else if snd hm = 0 then numToString (fst hm) @ '' hours''
                  else numToString (fst hm) @ ''h:'' @ numToString (snd hm) @ ''m'')"

section \<open>Data model\<close>

text \<open>The block's data \<open>{ withHeadings, content, snippet }\<close>; a \<open>null\<close> snippet is \<open>None\<close>.\<close>

record BlockData =
  withHeadings :: bool
  content :: "string list list"
  snippet :: "string option"

text \<open>
  The \<open>data\<close> argument of the constructor, as the host passes it: previously saved data
  in which any field may be missing or \<open>null\<close>.
\<close>

record SavedData =
  saved_withHeadings :: "bool option"
  saved_content :: "string list list option"
  saved_snippet :: "string option"

text \<open>The remote response \<open>{ entries: [{ story_name, minutes_spent, notes }], per_hour }\<close>.\<close>

text \<open>(The field \<open>notes\<close> is \<open>notes_of\<close> here.)\<close>

record Entry =
  story_name :: string
  minutes_spent :: number
  notes_of :: string

record Response =
  entries :: "Entry list"
  per_hour :: number

text \<open>
  The tool's configuration and the part of the editor's API the block reads.
  \<open>regex\<close> is the configured pattern through its method \<open>test\<close>, taken as a predicate
  on the text (a pattern without the global flag keeps no state between tests). The
  constructor's copy \<open>this.regex\<close> of it is read from the configuration here.
\<close>

record Config =
  placeholder_cfg :: "string option"
  regex :: "string \<Rightarrow> bool"
  additionalRequestHeaders :: "(string \<times> string) list option"

record Api =
  styles_block :: string
  styles_input :: string
  i18n_t :: "string \<Rightarrow> string"

record Args =
  arg_data :: "SavedData option"
  arg_config :: Config
  arg_api :: Api
  arg_readOnly :: bool

subsection \<open>DOM elements\<close>

text \<open>
  An element with its tag, its class list, its text and the attributes the plugin sets.
  \<open>classList.add\<close> leaves a list that has the class unchanged, \<open>classList.remove\<close>
  deletes the class.
\<close>

record Element =
  tagName :: string
  classList :: "string list"
  textContent :: string
  attributes :: "(string \<times> string) list"

definition classList_add :: "string \<Rightarrow> Element \<Rightarrow> Element" where
  "classList_add c e = (if c \<in> set (classList e) then e else e\<lparr>classList := classList e @ [c]\<rparr>)"

definition classList_remove :: "string \<Rightarrow> Element \<Rightarrow> Element" where
  "classList_remove c e = e\<lparr>classList := removeAll c (classList e)\<rparr>"

text \<open>
  Modelled from the spec: the DOM construction helper \<open>make(tagName, classNames, attributes)\<close>
  of \<open>utils/dom\<close> is not among the sources. It is \<open>dom_make\<close> here; it creates an
  element of the given tag, adds the given classes and sets the given attributes.
\<close>

definition dom_make :: "string \<Rightarrow> string list \<Rightarrow> (string \<times> string) list \<Rightarrow> Element" where
  "dom_make tag classNames attrs =
     fold classList_add classNames
       \<lparr>tagName = tag, classList = [], textContent = [], attributes = attrs\<rparr>"

subsection \<open>Table view\<close>

text \<open>
  Modelled from the spec: the table view (class \<open>Table\<close> of \<open>./table\<close>) is not among the
  sources. The spec describes it as the owner of a two-dimensional grid of cells, a
  headings toggle, and serialization to and from a plain data shape: it is built from
  the block's data, \<open>getData\<close> returns the grid, \<open>setHeadingsSetting\<close> sets the toggle
  and \<open>getWrapper\<close> returns its root element.
\<close>

record Table =
  table_readOnly :: bool
  table_grid :: "string list list"
  table_headings :: bool

text \<open>Modelled from the spec: \<open>new Table(readOnly, api, data, config)\<close> takes its grid from
  the data.\<close>

definition new_Table :: "bool \<Rightarrow> BlockData \<Rightarrow> Table" where
  "new_Table ro d = \<lparr>table_readOnly = ro, table_grid = content d, table_headings = False\<rparr>"

text \<open>Modelled from the spec: \<open>getData\<close> serializes the grid as it stands.\<close>

definition getData :: "Table \<Rightarrow> string list list" where
  "getData t = table_grid t"

text \<open>Modelled from the spec: \<open>setHeadingsSetting\<close> sets the headings toggle.\<close>

definition setHeadingsSetting :: "bool \<Rightarrow> Table \<Rightarrow> Table" where
  "setHeadingsSetting h t = t\<lparr>table_headings := h\<rparr>"

text \<open>Modelled from the spec: \<open>getWrapper\<close> returns the root element of the table view.\<close>

definition getWrapper :: "Table \<Rightarrow> Element" where
  "getWrapper t = dom_make ''div'' [] []"

section \<open>Block controller\<close>

datatype STATE = EDIT | VIEW | LOADING

datatype error = TypeError

text \<open>
  The nodes the block keeps. The constructor sets every node to \<open>null\<close> and \<open>render\<close>
  sets all of them in one call, so the block holds \<open>None\<close> before \<open>render\<close> and the whole
  record after. \<open>render\<close> nests them as wrapper, container, then the input holder (with
  the text input), the loading holder and the table holder (with the table's root).
  The node \<open>buttonLinkHolder\<close> is never set and is left out.
\<close>

record Nodes =
  wrapper :: Element
  container :: Element
  inputHolder :: Element
  textInput :: Element
  tableHolder :: Element
  tableContentHolder :: Element
  loadingHolder :: Element

text \<open>
  The block. \<open>fetches\<close> lists the requests \<open>loadData\<close> has issued (URL and headers) and
  \<open>console\<close> the errors written with \<open>console.error\<close>; both stand for the outside world.
\<close>

record Block =
  api :: Api
  readOnly :: bool
  data :: BlockData
  config :: Config
  placeholder :: string
  table :: "Table option"
  nodes :: "Nodes option"
  fetches :: "(string \<times> (string \<times> string) list option) list"
  console :: "string list"

text \<open>The result of a method that may throw: the block as the method left it.\<close>

datatype outcome = Returned Block | Thrown error Block

text \<open>Truthiness of a string that may be \<open>null\<close>: the empty string is falsy.\<close>

definition truthy :: "string option \<Rightarrow> bool" where
  "truthy s = (case s of None \<Rightarrow> False | Some t \<Rightarrow> t \<noteq> [])"

definition constructor :: "Args \<Rightarrow> Block" where
  "constructor a =
     \<lparr>api = arg_api a,
      readOnly = arg_readOnly a,
      data =
        \<lparr>withHeadings =
           (case arg_data a of None \<Rightarrow> False
            | Some d \<Rightarrow> (case saved_withHeadings d of Some True \<Rightarrow> True | _ \<Rightarrow> False)),
         content =
           (case arg_data a of None \<Rightarrow> []
            | Some d \<Rightarrow> (case saved_content d of Some c \<Rightarrow> c | None \<Rightarrow> [])),
         snippet =
           (case arg_data a of None \<Rightarrow> None
            | Some d \<Rightarrow> (if truthy (saved_snippet d) then saved_snippet d else None))\<rparr>,
      config = arg_config a,
      placeholder =
        (case placeholder_cfg (arg_config a) of
           None \<Rightarrow> ''Timesheet Snippet''
         | Some p \<Rightarrow> if p = [] then ''Timesheet Snippet'' else p),
      table = None,
      nodes = None,
      fetches = [],
      console = []\<rparr>"

text \<open>The class names of the getter \<open>CSS\<close> that the block uses.\<close>

definition CSS_hide :: string where "CSS_hide = ''hide''"
definition CSS_container :: string where "CSS_container = ''timesheetContainer''"
definition CSS_input :: string where "CSS_input = ''timesheetContainer__input''"
definition CSS_inputHolder :: string where "CSS_inputHolder = ''timesheetContainer__inputHolder''"
definition CSS_inputText :: string where "CSS_inputText = ''timesheetContainer__input--text''"
definition CSS_tableHolder :: string where "CSS_tableHolder = ''timesheetContainer-tableHolder''"
definition CSS_loadingHolder :: string where "CSS_loadingHolder = ''timesheetContainer__preloader''"
definition CSS_loadingContent :: string where
  "CSS_loadingContent = ''timesheetContainer__preloader-content''"

text \<open>\<open>changeState\<close>: each case touches the three holders; a \<open>null\<close> node throws.\<close>

definition changeState :: "STATE \<Rightarrow> Block \<Rightarrow> outcome" where
  "changeState st b =
     (case nodes b of
        None \<Rightarrow> Thrown TypeError b
      | Some n \<Rightarrow>
          (case st of
             EDIT \<Rightarrow>
               Returned (b\<lparr>nodes := Some (n\<lparr>
                 inputHolder := classList_remove CSS_hide (inputHolder n),
                 tableHolder := classList_add CSS_hide (tableHolder n),
                 loadingHolder := classList_add CSS_hide (loadingHolder n)\<rparr>)\<rparr>)
           | VIEW \<Rightarrow>
               Returned (b\<lparr>nodes := Some (n\<lparr>
                 tableHolder := classList_remove CSS_hide (tableHolder n),
                 inputHolder := classList_add CSS_hide (inputHolder n),
                 loadingHolder := classList_add CSS_hide (loadingHolder n)\<rparr>)\<rparr>)
           | LOADING \<Rightarrow>
               Returned (b\<lparr>nodes := Some (n\<lparr>
                 loadingHolder := classList_remove CSS_hide (loadingHolder n),
                 tableHolder := classList_add CSS_hide (tableHolder n),
                 inputHolder := classList_add CSS_hide (inputHolder n)\<rparr>)\<rparr>)))"

text \<open>The method \<open>show\<close>, named \<open>show_state\<close> here.\<close>

definition show_state :: "STATE \<Rightarrow> Block \<Rightarrow> outcome" where
  "show_state st b = changeState st b"

text \<open>\<open>makeInputHolder\<close> and \<open>createPreloader\<close>: the elements they build, the text input
  of the former apart as \<open>make_textInput\<close>.\<close>

definition make_textInput :: "Block \<Rightarrow> Element" where
  "make_textInput b =
     dom_make ''div'' [styles_input (api b), CSS_input, CSS_inputText]
       [(''contentEditable'', if readOnly b then ''false'' else ''true''),
        (''data-placeholder'', i18n_t (api b) (placeholder b))]"

definition makeInputHolder :: "Block \<Rightarrow> Element" where
  "makeInputHolder b = dom_make ''div'' [CSS_inputHolder] []"

definition createPreloader :: "Block \<Rightarrow> Element" where
  "createPreloader b = dom_make ''preloader'' [CSS_hide, CSS_loadingHolder] []"

text \<open>\<open>render\<close>: builds the table view and the nodes, then shows the table when the
  block has a snippet. The result is the block; the returned root is its \<open>wrapper\<close>.\<close>

definition render :: "Block \<Rightarrow> outcome" where
  "render b =
     (let t = new_Table (readOnly b) (data b);
          n = \<lparr>wrapper = dom_make ''div'' [styles_block (api b)] [],
               container = dom_make ''div'' [CSS_container] [],
               inputHolder = makeInputHolder b,
               textInput = make_textInput b,
               tableHolder = dom_make ''div'' [CSS_hide, CSS_tableHolder] [],
               tableContentHolder = getWrapper t,
               loadingHolder = createPreloader b\<rparr>;
          b' = b\<lparr>table := Some (setHeadingsSetting (withHeadings (data b)) t),
                 nodes := Some n\<rparr>
      in if truthy (snippet (data b')) then show_state VIEW b' else Returned b')"

text \<open>\<open>save\<close>: reads the table view, which is \<open>null\<close> before \<open>render\<close>.\<close>

definition save :: "Block \<Rightarrow> error + BlockData" where
  "save b =
     (case table b of
        None \<Rightarrow> Inl TypeError
      | Some t \<Rightarrow>
          Inr \<lparr>withHeadings = withHeadings (data b),
               content = getData t,
               snippet = snippet (data b)\<rparr>)"

text \<open>\<open>loadData\<close> issues the request; its continuations are the events below.\<close>

definition loadData :: "string \<Rightarrow> Block \<Rightarrow> Block" where
  "loadData url b = b\<lparr>fetches := fetches b @ [(url, additionalRequestHeaders (config b))]\<rparr>"

text \<open>\<open>prepareTableData\<close>: the header, a row for each entry pushed in turn, the total row.\<close>

definition entryRow :: "Response \<Rightarrow> Entry \<Rightarrow> string list" where
  "entryRow response entry =
     (let entryBill = minutes_spent entry * (per_hour response / 60);
          entryBill' = math_round (entryBill * 100) / 100
      in [story_name entry, minutesToLabel (Some (minutes_spent entry)), notes_of entry,
          ''$'' @ numToString (per_hour response), ''$'' @ numToString entryBill'])"

definition prepareTableData :: "Response \<Rightarrow> string list list" where
  "prepareTableData response =
     (let data0 = [[''Work Details'', ''Billable time'', ''Note'', ''Billing (/hr)'',
                    ''Total Billing'']];
          data1 = foldl (\<lambda>d entry. d @ [entryRow response entry]) data0 (entries response);
          totalMins = foldl (\<lambda>accumulator entry. accumulator + minutes_spent entry) 0
                        (entries response);
          totalBill = totalMins * (per_hour response / 60);
          totalBill' = math_round (totalBill * 100) / 100
      in data1 @ [[''<b>Total</b>'', ''<b>'' @ minutesToLabel (Some totalMins) @ ''</b>'', [], [],
                   ''<b>$'' @ numToString totalBill' @ ''</b>'']])"

text \<open>\<open>embedTable\<close>: the data and the table view are replaced before the nodes are
  touched, so a throw on a \<open>null\<close> node leaves them replaced. The block index it reads
  from the API first is not used.\<close>

definition embedTable :: "Response \<Rightarrow> Block \<Rightarrow> outcome" where
  "embedTable response b =
     (let tableData = prepareTableData response;
          b1 = b\<lparr>data := (data b)\<lparr>content := tableData, withHeadings := True\<rparr>\<rparr>;
          t = new_Table (readOnly b1) (data b1);
          b2 = b1\<lparr>table := Some t\<rparr>
      in case nodes b2 of
           None \<Rightarrow> Thrown TypeError b2
         | Some n \<Rightarrow> show_state VIEW (b2\<lparr>nodes := Some (n\<lparr>tableContentHolder := getWrapper t\<rparr>)\<rparr>))"

subsection \<open>Events\<close>

text \<open>
  What happens to a block after \<open>construct\<close>: the user's input event on the text input
  (with the text the input then holds), the two continuations of a request (the parsed
  body, or the error of a rejected request or of a body that fails to parse), and the
  host's paste event with its \<open>type\<close> and \<open>detail.data\<close>. A body that parses to
  something else than a response makes \<open>prepareTableData\<close> throw before the block is
  touched, and \<open>catch\<close> logs the error: for the block that is the failure event. The
  plugin does not track which request a continuation belongs to, and neither do the
  events.
\<close>

datatype event =
    Input string
  | FetchSuccess Response
  | FetchFailure string
  | Paste string string

text \<open>The listener of the text input; it exists once \<open>render\<close> has built the input.\<close>

definition onInput :: "string \<Rightarrow> Block \<Rightarrow> outcome" where
  "onInput s b =
     (case nodes b of
        None \<Rightarrow> Returned b
      | Some n \<Rightarrow>
          (let b1 = b\<lparr>nodes := Some (n\<lparr>textInput := (textInput n)\<lparr>textContent := s\<rparr>\<rparr>)\<rparr>
           in if regex (config b1) s
              then (case show_state LOADING (b1\<lparr>data := (data b1)\<lparr>snippet := Some s\<rparr>\<rparr>) of
                      Returned b2 \<Rightarrow> Returned (loadData s b2)
                    | Thrown e b2 \<Rightarrow> Thrown e b2)
              else Returned b1))"

definition onPaste :: "string \<Rightarrow> string \<Rightarrow> Block \<Rightarrow> Block" where
  "onPaste ty d b = (if ty = ''pattern'' then loadData d b else b)"

text \<open>The continuations of \<open>loadData\<close>: \<open>then\<close> embeds the table, \<open>catch\<close> logs the error,
  also an error thrown by \<open>embedTable\<close>.\<close>

definition error_text :: "error \<Rightarrow> string" where
  "error_text e = (case e of TypeError \<Rightarrow> ''TypeError'')"

definition onFetchFailure :: "string \<Rightarrow> Block \<Rightarrow> Block" where
  "onFetchFailure err b = b\<lparr>console := console b @ [''Error: '' @ err]\<rparr>"

definition onFetchSuccess :: "Response \<Rightarrow> Block \<Rightarrow> Block" where
  "onFetchSuccess response b =
     (case embedTable response b of
        Returned b' \<Rightarrow> b'
      | Thrown e b' \<Rightarrow> onFetchFailure (error_text e) b')"

text \<open>One event; an error thrown in a listener is lost to the event loop and the block
  stays as the listener left it.\<close>

definition block_of :: "outcome \<Rightarrow> Block" where
  "block_of r = (case r of Returned b \<Rightarrow> b | Thrown e b \<Rightarrow> b)"

definition handle :: "event \<Rightarrow> Block \<Rightarrow> Block" where
  "handle ev b =
     (case ev of
        Input s \<Rightarrow> block_of (onInput s b)
      | FetchSuccess response \<Rightarrow> onFetchSuccess response b
      | FetchFailure err \<Rightarrow> onFetchFailure err b
      | Paste ty d \<Rightarrow> onPaste ty d b)"

definition run :: "event list \<Rightarrow> Block \<Rightarrow> Block" where
  "run evs b = fold handle evs b"

subsection \<open>Visible regions\<close>

text \<open>The three regions are the three holders.\<close>

datatype region = InputRegion | TableRegion | LoadingRegion

text \<open>
  Modelled from the spec: the style sheet is not among the sources. The class \<open>hide\<close> is
  the hidden class of the spec: a holder is hidden when its class list has it.
\<close>

definition hidden :: "Element \<Rightarrow> bool" where
  "hidden e = (CSS_hide \<in> set (classList e))"

definition holder :: "region \<Rightarrow> Nodes \<Rightarrow> Element" where
  "holder r n = (case r of InputRegion \<Rightarrow> inputHolder n
                 | TableRegion \<Rightarrow> tableHolder n
                 | LoadingRegion \<Rightarrow> loadingHolder n)"

text \<open>The regions that are not hidden; none before \<open>render\<close>.\<close>

definition visible :: "Block \<Rightarrow> region list" where
  "visible b =
     (case nodes b of
        None \<Rightarrow> []
      | Some n \<Rightarrow> filter (\<lambda>r. \<not> hidden (holder r n)) [InputRegion, TableRegion, LoadingRegion])"

section \<open>Notions of the specification\<close>

text \<open>
  Rounding to two decimal places as the specification words it: round half up on the
  value scaled by 100.
\<close>

definition round2 :: "number \<Rightarrow> number" where
  "round2 x = of_int \<lfloor>x * 100 + 1 / 2\<rfloor> / 100"

text \<open>The persisted form of a block's data, every field present, as \<open>save\<close> returns it
  and the host passes it back on reload.\<close>

definition persisted :: "BlockData \<Rightarrow> SavedData" where
  "persisted d =
     \<lparr>saved_withHeadings = Some (withHeadings d),
      saved_content = Some (content d),
      saved_snippet = snippet d\<rparr>"

text \<open>The state a transition of \<open>changeState\<close> is named after, and its region.\<close>

definition region_of :: "STATE \<Rightarrow> region" where
  "region_of st = (case st of EDIT \<Rightarrow> InputRegion | VIEW \<Rightarrow> TableRegion
                   | LOADING \<Rightarrow> LoadingRegion)"

text \<open>The invariant of a rendered block: its nodes exist and one region alone is visible.\<close>

definition one_visible :: "Block \<Rightarrow> bool" where
  "one_visible b =
     (nodes b \<noteq> None \<and> visible b \<in> {[InputRegion], [TableRegion], [LoadingRegion]})"

subsection \<open>Sample inputs\<close>

definition sample_response :: Response where
  "sample_response =
     \<lparr>entries = [\<lparr>story_name = ''A'', minutes_spent = 60, notes_of = ''x''\<rparr>], per_hour = 10\<rparr>"


definition sample_api :: Api where
  "sample_api = \<lparr>styles_block = ''cdx-block'', styles_input = ''cdx-input'', i18n_t = (\<lambda>s. s)\<rparr>"

text \<open>A configuration whose pattern accepts the texts that start with \<open>http\<close>.\<close>

definition sample_config :: Config where
  "sample_config =
     \<lparr>placeholder_cfg = None, regex = (\<lambda>s. take 4 s = ''http''),
      additionalRequestHeaders = None\<rparr>"

definition sample_args :: "SavedData option \<Rightarrow> Args" where
  "sample_args d =
     \<lparr>arg_data = d, arg_config = sample_config, arg_api = sample_api, arg_readOnly = False\<rparr>"

definition sample_saved :: SavedData where
  "sample_saved =
     \<lparr>saved_withHeadings = Some False, saved_content = Some [], saved_snippet = Some ''http://x''\<rparr>"

definition sample_data :: BlockData where
  "sample_data = \<lparr>withHeadings = True, content = [[''a'', ''b'']], snippet = Some ''http://x''\<rparr>"

text \<open>Persisted data whose snippet is the empty string, with its fields optional and not.\<close>

definition empty_snippet_saved :: SavedData where
  "empty_snippet_saved =
     \<lparr>saved_withHeadings = Some False, saved_content = Some [], saved_snippet = Some []\<rparr>"

definition empty_snippet_data :: BlockData where
  "empty_snippet_data = \<lparr>withHeadings = False, content = [], snippet = Some []\<rparr>"

text \<open>A block constructed without data and rendered.\<close>

definition sample_block :: Block where
  "sample_block = block_of (render (constructor (sample_args None)))"

section \<open>Properties of the formatting utility\<close>




text \<open>
  Claim C3. \<open>minutesToLabel\<close> returns the empty string for \<open>null\<close> and for zero;
  for any other input it returns \<open><m> minutes\<close> when the hours component of
  \<open>minutesToHoursMinutes\<close> is zero, \<open><h> hours\<close> when the minutes component is zero,
  and \<open><h>h:<m>m\<close> otherwise. So 45 gives \<open>45 minutes\<close>, 120 gives \<open>2 hours\<close> and 90
  gives \<open>1h:30m\<close>.
\<close>

theorem minutesToLabel_cases:
  "minutesToLabel None = [] \<and> minutesToLabel (Some 0) = [] \<and>
   (m \<noteq> 0 \<longrightarrow>
      minutesToLabel (Some m) =
        (case minutesToHoursMinutes m of
           (h, r) \<Rightarrow>
             if h = 0 then numToString r @ '' minutes''
             else if r = 0 then numToString h @ '' hours''
             else numToString h @ ''h:'' @ numToString r @ ''m'')) \<and>
   minutesToLabel (Some 45) = ''45 minutes'' \<and>
   minutesToLabel (Some 120) = ''2 hours'' \<and>
   minutesToLabel (Some 90) = ''1h:30m''"
proof -
  have null: "minutesToLabel None = []" and zero: "minutesToLabel (Some 0) = []"
    by (simp_all add: minutesToLabel_def)
  have general: "m \<noteq> 0 \<longrightarrow>
      minutesToLabel (Some m) =
        (case minutesToHoursMinutes m of
           (h, r) \<Rightarrow>
             if h = 0 then numToString r @ '' minutes''
             else if r = 0 then numToString h @ '' hours''
             else numToString h @ ''h:'' @ numToString r @ ''m'')"
    by (simp add: minutesToLabel_def Let_def split: prod.split)
  have e45: "minutesToLabel (Some 45) = ''45 minutes''" by code_simp
  have e120: "minutesToLabel (Some 120) = ''2 hours''" by code_simp
  have e90: "minutesToLabel (Some 90) = ''1h:30m''" by code_simp
  from null zero general e45 e120 e90 show ?thesis by (intro conjI)
qed

theorem minutesToLabel_cases_witness:
  "(75 :: rat) \<noteq> 0 \<and> minutesToHoursMinutes 75 = (1, 15) \<and> minutesToLabel (Some 75) = ''1h:15m''"
proof -
  have n: "(75 :: rat) \<noteq> 0" by simp
  have hm: "minutesToHoursMinutes 75 = (1, 15)" by code_simp
  have s1: "numToString 1 = ''1''" and s15: "numToString 15 = ''15''" by code_simp+
  from minutesToLabel_cases [of 75] n
  have "minutesToLabel (Some 75) =
        (case minutesToHoursMinutes 75 of
           (h, r) \<Rightarrow>
             if h = 0 then numToString r @ '' minutes''
             else if r = 0 then numToString h @ '' hours''
             else numToString h @ ''h:'' @ numToString r @ ''m'')"
    by blast
  with hm s1 s15 have "minutesToLabel (Some 75) = ''1h:15m''" by simp
  with n hm show ?thesis by simp
qed

section \<open>Properties of the derived table\<close>

text \<open>\<open>Math.round\<close> is the floor of the number plus one half, so rounding the bill
  scaled by 100 and dividing by 100 is \<open>round2\<close>.\<close>

lemma math_round_floor: "math_round x = of_int \<lfloor>x + 1 / 2\<rfloor>"
proof -
  have lo: "of_int \<lfloor>x\<rfloor> \<le> x" and hi: "x < of_int \<lfloor>x\<rfloor> + 1"
    by linarith+
  show ?thesis
  proof (cases "x - of_int \<lfloor>x\<rfloor> < 1 / 2")
    case True
    have "\<lfloor>x + 1 / 2\<rfloor> = \<lfloor>x\<rfloor>"
    proof (rule floor_unique)
      show "of_int \<lfloor>x\<rfloor> \<le> x + 1 / 2" using lo by linarith
      show "x + 1 / 2 < of_int \<lfloor>x\<rfloor> + 1" using True by linarith
    qed
    with True show ?thesis by (simp only: math_round_def if_True)
  next
    case False
    have "\<lfloor>x + 1 / 2\<rfloor> = \<lfloor>x\<rfloor> + 1"
    proof (rule floor_unique)
      show "of_int (\<lfloor>x\<rfloor> + 1) \<le> x + 1 / 2" using False by simp
      show "x + 1 / 2 < of_int (\<lfloor>x\<rfloor> + 1) + 1" using hi by simp
    qed
    with False show ?thesis by (simp only: math_round_def if_False of_int_add of_int_1)
  qed
qed

lemma round2_code: "math_round (x * 100) / 100 = round2 x"
  by (simp add: math_round_floor round2_def)

lemma foldl_push: "foldl (\<lambda>d e. d @ [f e]) d0 xs = d0 @ map f xs"
  by (induction xs arbitrary: d0) simp_all

lemma foldl_plus: "foldl (\<lambda>a e. a + g e) a0 xs = (a0 :: rat) + sum_list (map g xs)"
  by (induction xs arbitrary: a0) (simp_all add: add.assoc)

text \<open>The loops of \<open>prepareTableData\<close> in closed form.\<close>

lemma prepareTableData_rows:
  "prepareTableData response =
     [''Work Details'', ''Billable time'', ''Note'', ''Billing (/hr)'', ''Total Billing'']
     # map (entryRow response) (entries response)
     @ [[''<b>Total</b>'',
         ''<b>'' @ minutesToLabel (Some (sum_list (map minutes_spent (entries response)))) @ ''</b>'',
         [], [],
         ''<b>$'' @ numToString (round2 (sum_list (map minutes_spent (entries response))
                                          * (per_hour response / 60))) @ ''</b>'']]"
  by (simp add: prepareTableData_def Let_def foldl_push foldl_plus round2_code)

lemma entryRow_eq:
  "entryRow response entry =
     [story_name entry, minutesToLabel (Some (minutes_spent entry)), notes_of entry,
      ''$'' @ numToString (per_hour response),
      ''$'' @ numToString (round2 (minutes_spent entry * (per_hour response / 60)))]"
  by (simp add: entryRow_def Let_def round2_code)



text \<open>
  Claim C2. For the response with the one entry \<open>A\<close>, 60 minutes, note \<open>x\<close> and the rate
  10, \<open>prepareTableData\<close> returns exactly the header row, the row
  \<open>A, 1 hours, x, $10, $10\<close> and the total row; for every response the table has one
  row for each entry besides the header and the total, and every row has 5 cells.
\<close>

theorem prepareTableData_sample:
  "prepareTableData sample_response =
     [[''Work Details'', ''Billable time'', ''Note'', ''Billing (/hr)'', ''Total Billing''],
      [''A'', ''1 hours'', ''x'', ''$10'', ''$10''],
      [''<b>Total</b>'', ''<b>1 hours</b>'', [], [], ''<b>$10</b>'']]
   \<and> length (prepareTableData response) = length (entries response) + 2
   \<and> (\<forall>row \<in> set (prepareTableData response). length row = 5)"
proof (intro conjI)
  show "prepareTableData sample_response =
     [[''Work Details'', ''Billable time'', ''Note'', ''Billing (/hr)'', ''Total Billing''],
      [''A'', ''1 hours'', ''x'', ''$10'', ''$10''],
      [''<b>Total</b>'', ''<b>1 hours</b>'', [], [], ''<b>$10</b>'']]"
    by code_simp
  show "length (prepareTableData response) = length (entries response) + 2"
    by (simp add: prepareTableData_rows)
  show "\<forall>row \<in> set (prepareTableData response). length row = 5"
    by (auto simp add: prepareTableData_rows entryRow_eq)
qed

theorem prepareTableData_sample_witness:
  "prepareTableData sample_response ! 1 \<in> set (prepareTableData sample_response)
   \<and> length (prepareTableData sample_response ! 1) = 5
   \<and> length (prepareTableData sample_response) = 3"
proof -
  have n: "length (prepareTableData sample_response) = 3"
    using prepareTableData_sample [of sample_response] by (simp add: sample_response_def)
  then have m: "prepareTableData sample_response ! 1 \<in> set (prepareTableData sample_response)"
    by (intro nth_mem) simp
  with prepareTableData_sample [of sample_response]
  have "length (prepareTableData sample_response ! 1) = 5" by blast
  with n m show ?thesis by simp
qed

section \<open>Properties of the block controller\<close>

subsection \<open>Holders and regions\<close>

lemma hidden_classList_add: "hidden (classList_add CSS_hide e)"
  by (simp add: hidden_def classList_add_def)

lemma hidden_classList_remove: "\<not> hidden (classList_remove CSS_hide e)"
  by (simp add: hidden_def classList_remove_def)

lemmas hidden_simps = hidden_classList_add hidden_classList_remove

lemma changeState_rendered:
  assumes "nodes b = Some n"
  shows "\<exists>b'. changeState st b = Returned b' \<and> visible b' = [region_of st]
              \<and> nodes b' \<noteq> None \<and> data b' = data b \<and> table b' = table b
              \<and> fetches b' = fetches b \<and> console b' = console b \<and> config b' = config b"
  using assms
  by (cases st) (simp_all add: changeState_def visible_def holder_def region_of_def hidden_simps)

lemma changeState_unrendered: "nodes b = None \<Longrightarrow> changeState st b = Thrown TypeError b"
  by (simp add: changeState_def)

lemma visible_frame [simp]:
  "visible (b\<lparr>data := d\<rparr>) = visible b"
  "visible (b\<lparr>table := t\<rparr>) = visible b"
  "visible (b\<lparr>fetches := f\<rparr>) = visible b"
  "visible (b\<lparr>console := c\<rparr>) = visible b"
  by (simp_all add: visible_def)

lemma visible_inner_nodes:
  "nodes b = Some n \<Longrightarrow> visible (b\<lparr>nodes := Some (n\<lparr>textInput := e\<rparr>)\<rparr>) = visible b"
  "nodes b = Some n \<Longrightarrow> visible (b\<lparr>nodes := Some (n\<lparr>tableContentHolder := e\<rparr>)\<rparr>) = visible b"
  by (simp_all add: visible_def holder_def)

text \<open>\<open>render\<close> returns, with the input visible or, for a block with a snippet, the table.\<close>

lemma render_no_snippet:
  assumes "\<not> truthy (snippet (data b))"
  shows "\<exists>b'. render b = Returned b' \<and> visible b' = [InputRegion] \<and> nodes b' \<noteq> None
             \<and> data b' = data b
             \<and> table b' = Some (setHeadingsSetting (withHeadings (data b)) (new_Table (readOnly b) (data b)))
             \<and> config b' = config b \<and> fetches b' = fetches b \<and> console b' = console b"
  using assms
  by (simp add: render_def Let_def visible_def holder_def hidden_def makeInputHolder_def
      createPreloader_def dom_make_def classList_add_def CSS_hide_def CSS_inputHolder_def
      CSS_loadingHolder_def CSS_tableHolder_def)

lemma render_snippet:
  assumes "truthy (snippet (data b))"
  shows "\<exists>b'. render b = Returned b' \<and> visible b' = [TableRegion] \<and> nodes b' \<noteq> None
             \<and> data b' = data b
             \<and> table b' = Some (setHeadingsSetting (withHeadings (data b)) (new_Table (readOnly b) (data b)))
             \<and> config b' = config b \<and> fetches b' = fetches b \<and> console b' = console b"
proof -
  define b1 where "b1 = b\<lparr>table := Some (setHeadingsSetting (withHeadings (data b)) (new_Table (readOnly b) (data b))),
      nodes := Some \<lparr>wrapper = dom_make ''div'' [styles_block (api b)] [],
               container = dom_make ''div'' [CSS_container] [],
               inputHolder = makeInputHolder b,
               textInput = make_textInput b,
               tableHolder = dom_make ''div'' [CSS_hide, CSS_tableHolder] [],
               tableContentHolder = getWrapper (new_Table (readOnly b) (data b)),
               loadingHolder = createPreloader b\<rparr>\<rparr>"
  have r: "render b = changeState VIEW b1"
    using assms by (simp add: render_def Let_def b1_def show_state_def)
  have "\<exists>n. nodes b1 = Some n" by (simp add: b1_def)
  then obtain n where n: "nodes b1 = Some n" ..
  from changeState_rendered [OF n, of VIEW] obtain b' where
    c: "changeState VIEW b1 = Returned b'"
    and v: "visible b' = [region_of VIEW]" "nodes b' \<noteq> None"
    and d: "data b' = data b1" "table b' = table b1" "config b' = config b1"
      "fetches b' = fetches b1" "console b' = console b1" by blast
  have "data b1 = data b" "config b1 = config b" "fetches b1 = fetches b" "console b1 = console b"
    "table b1 = Some (setHeadingsSetting (withHeadings (data b)) (new_Table (readOnly b) (data b)))"
    by (simp_all add: b1_def)
  with r c v d show ?thesis by (simp add: region_of_def)
qed

lemma constructor_snippet:
  "snippet (data (constructor a)) =
     (case arg_data a of None \<Rightarrow> None
      | Some d \<Rightarrow> (case saved_snippet d of None \<Rightarrow> None
                   | Some s \<Rightarrow> if s = [] then None else Some s))"
  by (simp add: constructor_def truthy_def split: option.split)

text \<open>
  Claim C5, as amended. After \<open>construct\<close> and \<open>render\<close> the visible region is the input
  (\<open>EDIT\<close>) when the persisted data is absent or carries no snippet, a \<open>null\<close> snippet or
  the empty string, and the table alone (\<open>VIEW\<close>, the input hidden) when it carries a
  non-empty snippet such as \<open>http://x\<close>.
\<close>

theorem render_initial_region:
  "\<exists>b. render (constructor a) = Returned b \<and>
       visible b =
         (case arg_data a of
            None \<Rightarrow> [InputRegion]
          | Some d \<Rightarrow>
              (case saved_snippet d of
                 None \<Rightarrow> [InputRegion]
               | Some s \<Rightarrow> if s = [] then [InputRegion] else [TableRegion]))"
  (is "\<exists>b. _ \<and> visible b = ?region")
proof (cases "truthy (snippet (data (constructor a)))")
  case True
  from render_snippet [OF True] obtain b where
    "render (constructor a) = Returned b" "visible b = [TableRegion]" by blast
  moreover from True have "?region = [TableRegion]"
    by (auto simp add: constructor_snippet truthy_def split: option.splits if_splits)
  ultimately show ?thesis by simp
next
  case False
  from render_no_snippet [OF False] obtain b where
    "render (constructor a) = Returned b" "visible b = [InputRegion]" by blast
  moreover from False have "?region = [InputRegion]"
    by (auto simp add: constructor_snippet truthy_def split: option.splits if_splits)
  ultimately show ?thesis by simp
qed

theorem render_initial_region_witness:
  "visible (block_of (render (constructor (sample_args (Some sample_saved))))) = [TableRegion]
   \<and> visible (block_of (render (constructor (sample_args None)))) = [InputRegion]"
proof -
  from render_initial_region [of "sample_args (Some sample_saved)"]
  have 1: "visible (block_of (render (constructor (sample_args (Some sample_saved))))) = [TableRegion]"
    by (auto simp add: sample_args_def sample_saved_def block_of_def)
  from render_initial_region [of "sample_args None"]
  have 2: "visible (block_of (render (constructor (sample_args None)))) = [InputRegion]"
    by (auto simp add: sample_args_def block_of_def)
  from 1 2 show ?thesis by simp
qed

text \<open>
  The claim as stated, with \<open>VIEW\<close> for every snippet that is not \<open>null\<close>, fails for the
  empty string: it is not \<open>null\<close>, the constructor takes it for no snippet, and the input
  stays visible.
\<close>

theorem render_initial_region_counterexample:
  "saved_snippet empty_snippet_saved \<noteq> None
   \<and> visible (block_of (render (constructor (sample_args (Some empty_snippet_saved)))))
       = [InputRegion]
   \<and> visible (block_of (render (constructor (sample_args (Some empty_snippet_saved)))))
       \<noteq> [TableRegion]"
proof -
  have "\<not> truthy (snippet (data (constructor (sample_args (Some empty_snippet_saved)))))"
    by (simp add: constructor_snippet sample_args_def empty_snippet_saved_def truthy_def)
  from render_no_snippet [OF this]
  have "visible (block_of (render (constructor (sample_args (Some empty_snippet_saved)))))
       = [InputRegion]"
    by (auto simp add: block_of_def)
  then show ?thesis by (simp add: empty_snippet_saved_def)
qed

subsection \<open>Events\<close>

lemma loadData_frame:
  "nodes (loadData url b) = nodes b" "data (loadData url b) = data b"
  "visible (loadData url b) = visible b" "table (loadData url b) = table b"
  "console (loadData url b) = console b" "config (loadData url b) = config b"
  by (simp_all add: loadData_def)

lemma onInput_match:
  assumes "nodes b = Some n" "regex (config b) s"
  shows "\<exists>b'. onInput s b = Returned b' \<and> visible b' = [LoadingRegion] \<and> nodes b' \<noteq> None
             \<and> snippet (data b') = Some s
             \<and> fetches b' = fetches b @ [(s, additionalRequestHeaders (config b))]
             \<and> console b' = console b"
proof -
  define b1 where "b1 = b\<lparr>nodes := Some (n\<lparr>textInput := (textInput n)\<lparr>textContent := s\<rparr>\<rparr>)\<rparr>"
  define b2 where "b2 = b1\<lparr>data := (data b1)\<lparr>snippet := Some s\<rparr>\<rparr>"
  have n2: "nodes b2 = Some (n\<lparr>textInput := (textInput n)\<lparr>textContent := s\<rparr>\<rparr>)"
    by (simp add: b2_def b1_def)
  from changeState_rendered [OF n2, of LOADING] obtain b3 where
    c: "changeState LOADING b2 = Returned b3" and v: "visible b3 = [region_of LOADING]"
    and f: "nodes b3 \<noteq> None" "data b3 = data b2" "fetches b3 = fetches b2"
      "console b3 = console b2" "config b3 = config b2"
    by blast
  have "onInput s b = Returned (loadData s b3)"
    using assms c by (simp add: onInput_def Let_def show_state_def b1_def b2_def)
  moreover have "visible (loadData s b3) = [LoadingRegion]"
    using v by (simp add: loadData_frame region_of_def)
  moreover have "nodes (loadData s b3) \<noteq> None" using f by (simp add: loadData_frame)
  moreover have "snippet (data (loadData s b3)) = Some s"
    using f by (simp add: loadData_frame b2_def)
  moreover have "fetches (loadData s b3) = fetches b @ [(s, additionalRequestHeaders (config b))]"
    using f by (simp add: loadData_def b2_def b1_def)
  moreover have "console (loadData s b3) = console b"
    using f by (simp add: loadData_def b2_def b1_def)
  ultimately show ?thesis by simp
qed

lemma onInput_mismatch:
  assumes "nodes b = Some n" "\<not> regex (config b) s"
  shows "\<exists>b'. onInput s b = Returned b' \<and> visible b' = visible b \<and> nodes b' \<noteq> None
             \<and> data b' = data b \<and> fetches b' = fetches b"
  using assms by (simp add: onInput_def Let_def visible_inner_nodes)

lemma embedTable_rendered:
  assumes "nodes b = Some n"
  shows "\<exists>b'. embedTable response b = Returned b' \<and> visible b' = [TableRegion] \<and> nodes b' \<noteq> None
             \<and> data b' = (data b)\<lparr>content := prepareTableData response, withHeadings := True\<rparr>
             \<and> table b' = Some (new_Table (readOnly b) (data b'))
             \<and> console b' = console b \<and> fetches b' = fetches b \<and> config b' = config b"
proof -
  define b2 where "b2 = b\<lparr>data := (data b)\<lparr>content := prepareTableData response, withHeadings := True\<rparr>,
     table := Some (new_Table (readOnly b) ((data b)\<lparr>content := prepareTableData response, withHeadings := True\<rparr>)),
     nodes := Some (n\<lparr>tableContentHolder := getWrapper (new_Table (readOnly b) ((data b)\<lparr>content := prepareTableData response, withHeadings := True\<rparr>))\<rparr>)\<rparr>"
  have e: "embedTable response b = changeState VIEW b2"
    using assms by (simp add: embedTable_def Let_def show_state_def b2_def)
  have "\<exists>m. nodes b2 = Some m" by (simp add: b2_def)
  then obtain m where m: "nodes b2 = Some m" ..
  from changeState_rendered [OF m, of VIEW] obtain b3 where
    c: "changeState VIEW b2 = Returned b3" and v: "visible b3 = [region_of VIEW]"
    and f: "nodes b3 \<noteq> None" "data b3 = data b2" "console b3 = console b2"
      "table b3 = table b2" "fetches b3 = fetches b2" "config b3 = config b2"
    by blast
  with e show ?thesis by (simp add: region_of_def b2_def)
qed

lemma handle_one_visible:
  assumes "one_visible b"
  shows "one_visible (handle ev b)"
proof -
  from assms obtain n where n: "nodes b = Some n"
    and v: "visible b \<in> {[InputRegion], [TableRegion], [LoadingRegion]}"
    by (auto simp add: one_visible_def)
  show ?thesis
  proof (cases ev)
    case (Input s)
    show ?thesis
    proof (cases "regex (config b) s")
      case True
      from onInput_match [OF n True] Input show ?thesis
        by (auto simp add: handle_def block_of_def one_visible_def)
    next
      case False
      from onInput_mismatch [OF n False] Input v show ?thesis
        by (auto simp add: handle_def block_of_def one_visible_def)
    qed
  next
    case (FetchSuccess response)
    from embedTable_rendered [OF n, of response] FetchSuccess show ?thesis
      by (auto simp add: handle_def onFetchSuccess_def one_visible_def)
  next
    case (FetchFailure err)
    with n v show ?thesis
      by (simp add: handle_def onFetchFailure_def one_visible_def)
  next
    case (Paste ty d)
    with n v show ?thesis
      by (simp add: handle_def onPaste_def one_visible_def loadData_frame)
  qed
qed

lemma run_one_visible: "one_visible b \<Longrightarrow> one_visible (run evs b)"
  unfolding run_def by (induction evs arbitrary: b) (simp_all add: handle_one_visible)

lemma render_one_visible: "one_visible (block_of (render (constructor a)))"
proof (cases "truthy (snippet (data (constructor a)))")
  case True
  from render_snippet [OF True] show ?thesis
    by (auto simp add: one_visible_def block_of_def)
next
  case False
  from render_no_snippet [OF False] show ?thesis
    by (auto simp add: one_visible_def block_of_def)
qed

text \<open>
  Claim C9. In every state reached after \<open>render\<close> by any sequence of input, fetch success,
  fetch failure and paste events, exactly one of the three regions is visible; and from
  such a state \<open>EDIT\<close> shows the input alone, \<open>VIEW\<close> the table alone and \<open>LOADING\<close> the
  loading indicator alone.
\<close>

theorem one_region_visible:
  "(let b = run evs (block_of (render (constructor a)))
    in visible b \<in> {[InputRegion], [TableRegion], [LoadingRegion]}
       \<and> length (visible b) = 1
       \<and> visible (block_of (changeState EDIT b)) = [InputRegion]
       \<and> visible (block_of (changeState VIEW b)) = [TableRegion]
       \<and> visible (block_of (changeState LOADING b)) = [LoadingRegion])"
proof -
  define b where "b = run evs (block_of (render (constructor a)))"
  have o: "one_visible b"
    unfolding b_def by (intro run_one_visible render_one_visible)
  then obtain n where n: "nodes b = Some n" by (auto simp add: one_visible_def)
  from o have v: "visible b \<in> {[InputRegion], [TableRegion], [LoadingRegion]}"
    by (simp add: one_visible_def)
  then have l: "length (visible b) = 1" by auto
  have c: "visible (block_of (changeState st b)) = [region_of st]" for st
    using changeState_rendered [OF n, of st] by (auto simp add: block_of_def)
  from v l c [of EDIT] c [of VIEW] c [of LOADING] show ?thesis
    unfolding b_def [symmetric] Let_def by (simp add: region_of_def)
qed


theorem one_region_visible_witness:
  "visible (run [Input ''http://x'', FetchFailure ''timeout'', Paste ''pattern'' ''http://y'',
                 FetchSuccess sample_response]
              (block_of (render (constructor (sample_args None))))) = [TableRegion]"
proof -
  let ?b = "run [Input ''http://x'', FetchFailure ''timeout'', Paste ''pattern'' ''http://y'']
              (block_of (render (constructor (sample_args None))))"
  from one_region_visible [of "[Input ''http://x'', FetchFailure ''timeout'', Paste ''pattern'' ''http://y'']" "sample_args None"]
  have "visible ?b \<in> {[InputRegion], [TableRegion], [LoadingRegion]}"
    by (simp only: Let_def)
  then have "\<exists>n. nodes ?b = Some n"
    by (auto simp add: visible_def split: option.splits)
  then obtain n where "nodes ?b = Some n" ..
  from embedTable_rendered [OF this, of sample_response]
  have "visible (handle (FetchSuccess sample_response) ?b) = [TableRegion]"
    by (auto simp add: handle_def onFetchSuccess_def)
  then show ?thesis by (simp add: run_def)
qed

lemma sample_block_facts:
  "nodes sample_block \<noteq> None" "visible sample_block = [InputRegion]"
  "data sample_block = \<lparr>withHeadings = False, content = [], snippet = None\<rparr>"
  "config sample_block = sample_config" "fetches sample_block = []" "console sample_block = []"
proof -
  have "\<not> truthy (snippet (data (constructor (sample_args None))))"
    by (simp add: constructor_snippet sample_args_def truthy_def)
  from render_no_snippet [OF this] obtain b where
    "render (constructor (sample_args None)) = Returned b" "visible b = [InputRegion]"
    "nodes b \<noteq> None" "data b = data (constructor (sample_args None))"
    "config b = config (constructor (sample_args None))"
    "fetches b = fetches (constructor (sample_args None))"
    "console b = console (constructor (sample_args None))"
    by blast
  then show "nodes sample_block \<noteq> None" "visible sample_block = [InputRegion]"
  "data sample_block = \<lparr>withHeadings = False, content = [], snippet = None\<rparr>"
  "config sample_block = sample_config" "fetches sample_block = []" "console sample_block = []"
    by (simp_all add: sample_block_def block_of_def constructor_def sample_args_def)
qed

text \<open>
  Claim C6. On a fetch failure, the error is logged and nothing else happens: the block
  differs in its console alone, so its data, its nodes and the visible region are the
  same; when the failure follows a matching input, the region was \<open>LOADING\<close> and stays so.
\<close>

theorem fetch_failure_no_transition:
  "handle (FetchFailure err) b = b\<lparr>console := console b @ [''Error: '' @ err]\<rparr>
   \<and> data (handle (FetchFailure err) b) = data b
   \<and> nodes (handle (FetchFailure err) b) = nodes b
   \<and> table (handle (FetchFailure err) b) = table b
   \<and> fetches (handle (FetchFailure err) b) = fetches b
   \<and> visible (handle (FetchFailure err) b) = visible b
   \<and> (nodes b \<noteq> None \<and> regex (config b) s \<longrightarrow>
        visible (handle (Input s) b) = [LoadingRegion]
        \<and> visible (handle (FetchFailure err) (handle (Input s) b)) = [LoadingRegion])"
proof -
  have h: "handle (FetchFailure err) c = c\<lparr>console := console c @ [''Error: '' @ err]\<rparr>" for c
    by (simp add: handle_def onFetchFailure_def)
  have "visible (handle (Input s) b) = [LoadingRegion]
        \<and> visible (handle (FetchFailure err) (handle (Input s) b)) = [LoadingRegion]"
    if "nodes b \<noteq> None" "regex (config b) s"
  proof -
    from that obtain n where "nodes b = Some n" by auto
    from onInput_match [OF this that(2)] show ?thesis
      by (auto simp add: h handle_def [of "Input s"] block_of_def)
  qed
  then show ?thesis by (simp add: h)
qed

theorem fetch_failure_no_transition_witness:
  "nodes sample_block \<noteq> None \<and> regex (config sample_block) ''http://x''
   \<and> visible (handle (FetchFailure ''timeout'') (handle (Input ''http://x'') sample_block))
       = [LoadingRegion]
   \<and> console (handle (FetchFailure ''timeout'') sample_block) = [''Error: timeout'']"
proof -
  have r: "regex (config sample_block) ''http://x''"
    by (simp add: sample_block_facts sample_config_def)
  from fetch_failure_no_transition [of "''timeout''" sample_block "''http://x''"] r
  show ?thesis by (simp add: sample_block_facts)
qed

lemma onPaste_pattern: "handle (Paste ''pattern'' s) b = loadData s b"
  by (simp add: handle_def onPaste_def)

text \<open>
  Claim C7 says that a paste event of kind \<open>pattern\<close> with the text \<open>s\<close> does what a
  matching input of \<open>s\<close> does: records \<open>s\<close> as the snippet, shows \<open>LOADING\<close>, and fetches
  \<open>s\<close>. The code does the last only. On a fresh block and \<open>http://x\<close>: the input
  records the snippet and shows the loading indicator, the paste leaves the snippet
  \<open>null\<close> and the input visible; both issue the same request. After the paste and
  the response, \<open>save\<close> returns the table with a \<open>null\<close> snippet.
\<close>

theorem paste_skips_snippet_and_loading:
  "regex (config sample_block) ''http://x''
   \<and> snippet (data (handle (Input ''http://x'') sample_block)) = Some ''http://x''
   \<and> visible (handle (Input ''http://x'') sample_block) = [LoadingRegion]
   \<and> fetches (handle (Input ''http://x'') sample_block) = [(''http://x'', None)]
   \<and> snippet (data (handle (Paste ''pattern'' ''http://x'') sample_block)) = None
   \<and> visible (handle (Paste ''pattern'' ''http://x'') sample_block) = [InputRegion]
   \<and> fetches (handle (Paste ''pattern'' ''http://x'') sample_block) = [(''http://x'', None)]
   \<and> save (handle (FetchSuccess sample_response)
              (handle (Paste ''pattern'' ''http://x'') sample_block))
       = Inr \<lparr>withHeadings = True, content = prepareTableData sample_response, snippet = None\<rparr>"
proof -
  have r: "regex (config sample_block) ''http://x''"
    by (simp add: sample_block_facts sample_config_def)
  from sample_block_facts(1) obtain n where n: "nodes sample_block = Some n" by auto
  from onInput_match [OF n r]
  have i: "snippet (data (handle (Input ''http://x'') sample_block)) = Some ''http://x''"
    "visible (handle (Input ''http://x'') sample_block) = [LoadingRegion]"
    "fetches (handle (Input ''http://x'') sample_block) = [(''http://x'', None)]"
    by (auto simp add: handle_def block_of_def sample_block_facts sample_config_def)
  have p: "snippet (data (handle (Paste ''pattern'' ''http://x'') sample_block)) = None"
    "visible (handle (Paste ''pattern'' ''http://x'') sample_block) = [InputRegion]"
    "fetches (handle (Paste ''pattern'' ''http://x'') sample_block) = [(''http://x'', None)]"
    by (simp_all add: onPaste_pattern loadData_frame sample_block_facts)
       (simp add: loadData_def sample_block_facts sample_config_def)
  have "nodes (loadData ''http://x'' sample_block) = Some n"
    using n by (simp add: loadData_frame)
  from embedTable_rendered [OF this, of sample_response]
  have "save (handle (FetchSuccess sample_response)
              (handle (Paste ''pattern'' ''http://x'') sample_block))
       = Inr \<lparr>withHeadings = True, content = prepareTableData sample_response, snippet = None\<rparr>"
    by (auto simp add: onPaste_pattern handle_def [of "FetchSuccess sample_response"]
        onFetchSuccess_def save_def getData_def new_Table_def loadData_frame sample_block_facts)
  with r i p show ?thesis by simp
qed

lemma getData_new_Table: "getData (setHeadingsSetting h (new_Table ro d)) = content d"
  by (simp add: getData_def setHeadingsSetting_def new_Table_def)

lemma save_render:
  "save (block_of (render b)) =
     Inr \<lparr>withHeadings = withHeadings (data b), content = content (data b),
          snippet = snippet (data b)\<rparr>"
proof (cases "truthy (snippet (data b))")
  case True
  from render_snippet [OF True] show ?thesis
    by (auto simp add: block_of_def save_def getData_new_Table)
next
  case False
  from render_no_snippet [OF False] show ?thesis
    by (auto simp add: block_of_def save_def getData_new_Table)
qed

text \<open>
  Claim C8, as amended. For every block data whose snippet is \<open>null\<close> or a non-empty
  string, constructing the block with it, \<open>render\<close> and then \<open>save\<close> with no edit
  between return the same data: \<open>withHeadings\<close>, \<open>content\<close> and \<open>snippet\<close> are equal.
\<close>

theorem save_round_trip:
  assumes "arg_data a = Some (persisted d)" and "snippet d \<noteq> Some []"
  shows "save (block_of (render (constructor a))) = Inr d"
proof -
  have "data (constructor a) = d"
    using assms by (cases d) (auto simp add: constructor_def persisted_def truthy_def split: option.splits bool.splits)
  then show ?thesis by (simp add: save_render)
qed

theorem save_round_trip_witness:
  "arg_data (sample_args (Some (persisted sample_data))) = Some (persisted sample_data)
   \<and> snippet sample_data \<noteq> Some []
   \<and> save (block_of (render (constructor (sample_args (Some (persisted sample_data))))))
       = Inr \<lparr>withHeadings = True, content = [[''a'', ''b'']], snippet = Some ''http://x''\<rparr>"
proof -
  have 1: "arg_data (sample_args (Some (persisted sample_data))) = Some (persisted sample_data)"
    by (simp add: sample_args_def)
  have 2: "snippet sample_data \<noteq> Some []" by (simp add: sample_data_def)
  from save_round_trip [OF 1 2] 1 2 show ?thesis by (simp add: sample_data_def)
qed

text \<open>
  The claim as stated, for every block data, fails for the snippet that is the empty
  string: \<open>save\<close> returns \<open>null\<close> for it.
\<close>

theorem save_round_trip_counterexample:
  "save (block_of (render (constructor (sample_args (Some (persisted empty_snippet_data))))))
     = Inr \<lparr>withHeadings = False, content = [], snippet = None\<rparr>
   \<and> save (block_of (render (constructor (sample_args (Some (persisted empty_snippet_data))))))
     \<noteq> Inr empty_snippet_data"
  by (simp add: save_render constructor_def sample_args_def persisted_def empty_snippet_data_def
      truthy_def)

text \<open>
  Claim C10. The constructor replaces every falsy persisted field by its default: with
  no data the block's data is \<open>false\<close>, the empty list and \<open>null\<close>; with data,
  \<open>withHeadings\<close> is \<open>false\<close> when the field is missing or \<open>false\<close>, \<open>content\<close> is empty when
  the field is missing, and \<open>snippet\<close> is \<open>null\<close> when the field is missing, \<open>null\<close> or the
  empty string, so that \<open>save\<close> after \<open>render\<close> returns \<open>null\<close> and not the empty string.
\<close>

theorem constructor_defaults:
  "(arg_data a = None \<longrightarrow>
      data (constructor a) = \<lparr>withHeadings = False, content = [], snippet = None\<rparr>)
   \<and> (arg_data a = Some d \<longrightarrow>
        (saved_withHeadings d = None \<or> saved_withHeadings d = Some False
           \<longrightarrow> withHeadings (data (constructor a)) = False)
        \<and> (saved_content d = None \<longrightarrow> content (data (constructor a)) = [])
        \<and> (saved_snippet d = None \<or> saved_snippet d = Some []
             \<longrightarrow> snippet (data (constructor a)) = None
                 \<and> (\<exists>r. save (block_of (render (constructor a))) = Inr r \<and> snippet r = None)))"
  by (auto simp add: save_render) (auto simp add: constructor_def truthy_def)

theorem constructor_defaults_witness:
  "arg_data (sample_args None) = None
   \<and> data (constructor (sample_args None)) = \<lparr>withHeadings = False, content = [], snippet = None\<rparr>
   \<and> arg_data (sample_args (Some empty_snippet_saved)) = Some empty_snippet_saved
   \<and> saved_snippet empty_snippet_saved = Some []
   \<and> saved_withHeadings empty_snippet_saved = Some False
   \<and> withHeadings (data (constructor (sample_args (Some empty_snippet_saved)))) = False
   \<and> snippet (data (constructor (sample_args (Some empty_snippet_saved)))) = None
   \<and> (\<exists>r. save (block_of (render (constructor (sample_args (Some empty_snippet_saved))))) = Inr r
           \<and> snippet r = None)"
proof -
  have 1: "arg_data (sample_args None) = None" by (simp add: sample_args_def)
  have 2: "arg_data (sample_args (Some empty_snippet_saved)) = Some empty_snippet_saved"
    by (simp add: sample_args_def)
  have 3: "saved_snippet empty_snippet_saved = Some []"
    "saved_withHeadings empty_snippet_saved = Some False"
    by (simp_all add: empty_snippet_saved_def)
  from constructor_defaults [of "sample_args None"] 1
  have a: "data (constructor (sample_args None)) = \<lparr>withHeadings = False, content = [], snippet = None\<rparr>"
    by blast
  from constructor_defaults [of "sample_args (Some empty_snippet_saved)" empty_snippet_saved] 2 3
  have b: "withHeadings (data (constructor (sample_args (Some empty_snippet_saved)))) = False"
    "snippet (data (constructor (sample_args (Some empty_snippet_saved)))) = None"
    "\<exists>r. save (block_of (render (constructor (sample_args (Some empty_snippet_saved))))) = Inr r
           \<and> snippet r = None"
    by blast+
  from 1 2 3 a b show ?thesis by (intro conjI)
qed

end
